theory Spec2Isabelle
  imports Main "HOL-Library.Sublist"
begin

section \<open>The Gmail connector of \<^verbatim>\<open>src/scripts/gmail.py\<close>\<close>

text \<open>
  A shallow embedding of the parts of \<^verbatim>\<open>GmailConnector\<close> that build outbound
  messages (\<^verbatim>\<open>send_message\<close>, \<^verbatim>\<open>reply_to_message\<close>, \<^verbatim>\<open>forward_message\<close>), decode
  inbound ones (\<^verbatim>\<open>get_message_body\<close>) and obtain the credential
  (\<^verbatim>\<open>_get_gmail_service\<close>).

  Conventions.
  \<^item> A Python \<^verbatim>\<open>str\<close> is the list of the bytes of its UTF-8 encoding (\<open>string\<close>), so
    \<^verbatim>\<open>bytes.decode('utf-8')\<close> checks well-formedness and returns the same bytes. Splitting
    at an ASCII character, testing an ASCII prefix and concatenation agree with Python's
    operations on code points, because an ASCII byte never occurs inside a multi-byte
    UTF-8 sequence.
  \<^item> An exception is a value \<open>Inl e\<close> of the result type \<open>py_error + 'a\<close>.
  \<^item> The remote calls (\<^verbatim>\<open>get_message\<close>, \<^verbatim>\<open>messages().send\<close>) and the final
    serialisation \<^verbatim>\<open>urlsafe_b64encode(message.as_bytes())\<close> are outside the model: a
    function that builds a message returns the \<^verbatim>\<open>email.mime\<close> object it has built, and
    a function that reads one takes the dictionary the API has returned.
\<close>

datatype py_error =
    KeyError
  | ValueError
  | BinasciiError
  | UnicodeDecodeError
  | OSError
  | PicklingError
  | EOFError

subsection \<open>Python string operations\<close>

text \<open>
  \<^verbatim>\<open>s.split(c)\<close> for a one-character separator: the pieces between the occurrences of
  \<open>c\<close>, one more than there are occurrences. The result is never empty; the \<open>[]\<close> branch
  of the \<open>case\<close> is unreachable (lemma \<open>split_on_not_Nil\<close>).
\<close>

fun split_on :: "char \<Rightarrow> string \<Rightarrow> string list" where
  "split_on c [] = [[]]"
| "split_on c (x # xs) =
     (if x = c then [] # split_on c xs
      else (case split_on c xs of [] \<Rightarrow> [[x]] | p # ps \<Rightarrow> (x # p) # ps))"

text \<open>
  \<^verbatim>\<open>s.split(sep, 1)\<close> for a non-empty separator: \<open>Some (before, after)\<close> at the first
  occurrence of \<open>sep\<close>, \<open>None\<close> when \<open>sep\<close> does not occur (Python then returns \<^verbatim>\<open>[s]\<close>).
\<close>

fun split_once :: "string \<Rightarrow> string \<Rightarrow> (string \<times> string) option" where
  "split_once sep [] = None"
| "split_once sep (x # xs) =
     (if prefix sep (x # xs) then Some ([], drop (length sep) (x # xs))
      else (case split_once sep xs of
              None \<Rightarrow> None
            | Some (a, b) \<Rightarrow> Some (x # a, b)))"

text \<open>\<^verbatim>\<open>s.split(sep)[0]\<close>: the text before the first occurrence of \<open>sep\<close>, or all of \<open>s\<close>.\<close>

definition first_piece :: "string \<Rightarrow> string \<Rightarrow> string" where
  "first_piece sep s = (case split_once sep s of None \<Rightarrow> s | Some (a, b) \<Rightarrow> a)"

text \<open>\<^verbatim>\<open>sep.join(xs)\<close>.\<close>

fun join :: "string \<Rightarrow> string list \<Rightarrow> string" where
  "join sep [] = []"
| "join sep [x] = x"
| "join sep (x # y # ys) = x @ sep @ join sep (y # ys)"

text \<open>
  \<^verbatim>\<open>str.strip()\<close> removes leading and trailing whitespace. In the UTF-8 representation
  the whitespace characters of Python (\<^verbatim>\<open>str.isspace\<close>) are these byte sequences:
  U+0009..U+000D, U+001C..U+0020, U+0085, U+00A0, U+1680, U+2000..U+200A, U+2028, U+2029,
  U+202F, U+205F and U+3000.
\<close>

definition is_space_char :: "nat list \<Rightarrow> bool" where
  "is_space_char bs =
     (case bs of
        [b0] \<Rightarrow> (9 \<le> b0 \<and> b0 \<le> 13) \<or> (28 \<le> b0 \<and> b0 \<le> 32)
      | [b0, b1] \<Rightarrow> b0 = 194 \<and> (b1 = 133 \<or> b1 = 160)
      | [b0, b1, b2] \<Rightarrow>
          (b0 = 225 \<and> b1 = 154 \<and> b2 = 128) \<or>
          (b0 = 226 \<and> b1 = 128 \<and> ((128 \<le> b2 \<and> b2 \<le> 138) \<or> b2 = 168 \<or> b2 = 169 \<or> b2 = 175)) \<or>
          (b0 = 226 \<and> b1 = 129 \<and> b2 = 159) \<or>
          (b0 = 227 \<and> b1 = 128 \<and> b2 = 128)
      | _ \<Rightarrow> False)"

text \<open>
  \<open>lstrip_fuel n s\<close> removes at most \<open>n\<close> leading whitespace characters, each of one, two
  or three bytes; \<open>length s\<close> is enough fuel for all of them. \<open>rstrip_fuel\<close> does the same
  at the end of the string.
\<close>

fun lstrip_fuel :: "nat \<Rightarrow> string \<Rightarrow> string" where
  "lstrip_fuel 0 s = s"
| "lstrip_fuel (Suc n) s =
     (case find (\<lambda>k. is_space_char (map of_char (take k s))) [1, 2, 3] of
        None \<Rightarrow> s
      | Some k \<Rightarrow> lstrip_fuel n (drop k s))"

fun rstrip_fuel :: "nat \<Rightarrow> string \<Rightarrow> string" where
  "rstrip_fuel 0 s = s"
| "rstrip_fuel (Suc n) s =
     (case find (\<lambda>k. is_space_char (map of_char (drop (length s - k) s))) [1, 2, 3] of
        None \<Rightarrow> s
      | Some k \<Rightarrow> rstrip_fuel n (take (length s - k) s))"

definition strip :: "string \<Rightarrow> string" where
  "strip s = (let t = lstrip_fuel (length s) s in rstrip_fuel (length t) t)"

text \<open>Truthiness of an \<^verbatim>\<open>Optional[str]\<close>: \<^verbatim>\<open>None\<close> and the empty string are false.\<close>

fun truthy :: "string option \<Rightarrow> bool" where
  "truthy None = False"
| "truthy (Some s) = (s \<noteq> [])"

subsection \<open>Dictionaries built from header lists\<close>

text \<open>
  \<^verbatim>\<open>{k: v for ...}\<close> and \<^verbatim>\<open>dict(pairs)\<close> insert the pairs in order, a later pair
  replacing an earlier one with an equal key; keys are compared as strings, exactly.
  \<^verbatim>\<open>d.get(k, default)\<close> is \<open>dict_get\<close>.
\<close>

definition dict_of :: "(string \<times> string) list \<Rightarrow> (string \<rightharpoonup> string)" where
  "dict_of kvs = foldl (\<lambda>m (k, v). m(k \<mapsto> v)) Map.empty kvs"

definition dict_get :: "(string \<rightharpoonup> string) \<Rightarrow> string \<Rightarrow> string \<Rightarrow> string" where
  "dict_get d k dflt = (case d k of None \<Rightarrow> dflt | Some v \<Rightarrow> v)"

subsection \<open>Messages\<close>

text \<open>
  The objects of \<^verbatim>\<open>email.mime\<close> the connector builds:
  \<^item> \<open>MIMEText text subtype\<close> is \<^verbatim>\<open>MIMEText(text, subtype)\<close>, a leaf of type
    \<^verbatim>\<open>text/subtype\<close>;
  \<^item> \<open>MIMEBase maintype subtype payload filename\<close> is the attachment leaf of
    \<^verbatim>\<open>send_message\<close>: \<^verbatim>\<open>MIMEBase(maintype, subtype)\<close> with the file's bytes as payload,
    base64 transfer encoding and the header
    \<^verbatim>\<open>Content-Disposition: attachment; filename=...\<close>;
  \<^item> \<open>MIMEMultipart subtype hdrs children\<close> is \<^verbatim>\<open>MIMEMultipart(subtype)\<close> with the headers
    assigned by \<^verbatim>\<open>message[name] = v\<close> and the parts attached by \<^verbatim>\<open>message.attach\<close>,
    both in the order of the calls.
\<close>

datatype mime =
    MIMEText string string
  | MIMEBase string string string string
  | MIMEMultipart string "(string \<times> string) list" "mime list"

text \<open>The value of the first header called \<open>name\<close> of a built message, if any.\<close>

fun mime_header :: "mime \<Rightarrow> string \<Rightarrow> string option" where
  "mime_header (MIMEMultipart st hdrs cs) name = map_of hdrs name"
| "mime_header (MIMEText t st) name = None"
| "mime_header (MIMEBase mt st p f) name = None"

text \<open>
  What the Gmail API returns for a message, as far as the connector reads it. Each field
  is a dictionary key that may be missing: \<^verbatim>\<open>part['mimeType']\<close> raises \<^verbatim>\<open>KeyError\<close> on a
  part without the key, whereas \<^verbatim>\<open>'data' in part['body']\<close> only tests for it.
\<close>

datatype part_body = PartBody (data: "string option")

datatype message_part =
  MessagePart
    (mimeType: "string option")
    (headers: "(string \<times> string) list option")
    (body: "part_body option")
    (parts: "message_part list option")

record gmail_message =
  payload :: "message_part option"
  raw :: "string option"

subsection \<open>The decoders of the standard library\<close>

text \<open>
  \<^verbatim>\<open>base64.urlsafe_b64decode(s)\<close> for a \<^verbatim>\<open>str\<close> argument, after CPython's
  \<^verbatim>\<open>binascii.a2b_base64\<close> in its default, non-strict mode: a non-ASCII character raises
  \<^verbatim>\<open>ValueError\<close>; \<^verbatim>\<open>-\<close> and \<^verbatim>\<open>_\<close> stand for \<^verbatim>\<open>+\<close> and \<^verbatim>\<open>/\<close>; characters outside
  the alphabet are skipped; padding that completes a group of four ends the input; input
  that ends inside a group raises \<^verbatim>\<open>binascii.Error\<close>.
\<close>

definition b64_value :: "char \<Rightarrow> nat option" where
  "b64_value c =
     (let n = (of_char c :: nat) in
      if 65 \<le> n \<and> n \<le> 90 then Some (n - 65)
      else if 97 \<le> n \<and> n \<le> 122 then Some (n - 71)
      else if 48 \<le> n \<and> n \<le> 57 then Some (n + 4)
      else if c = CHR ''+'' \<or> c = CHR ''-'' then Some 62
      else if c = CHR ''/'' \<or> c = CHR ''_'' then Some 63
      else None)"

text \<open>
  The loop of \<^verbatim>\<open>a2b_base64\<close>: \<open>quad_pos\<close> is the position in the current group of
  four, \<open>leftchar\<close> the bits not yet written, \<open>pads\<close> the padding characters seen since the
  last data character, \<open>out\<close> the bytes written so far.
\<close>

fun a2b_base64 :: "nat \<Rightarrow> nat \<Rightarrow> nat \<Rightarrow> string \<Rightarrow> string \<Rightarrow> py_error + string" where
  "a2b_base64 quad_pos leftchar pads out [] =
     (if quad_pos \<noteq> 0 then Inl BinasciiError else Inr out)"
| "a2b_base64 quad_pos leftchar pads out (c # cs) =
     (if c = CHR ''='' then
        (if quad_pos \<ge> 2 then
           (if quad_pos + (pads + 1) \<ge> 4 then Inr out
            else a2b_base64 quad_pos leftchar (pads + 1) out cs)
         else a2b_base64 quad_pos leftchar pads out cs)
      else
        (case b64_value c of
           None \<Rightarrow> a2b_base64 quad_pos leftchar pads out cs
         | Some v \<Rightarrow>
            (if quad_pos = 0 then a2b_base64 1 v 0 out cs
             else if quad_pos = 1 then
               a2b_base64 2 (v mod 16) 0 (out @ [char_of (leftchar * 4 + v div 16)]) cs
             else if quad_pos = 2 then
               a2b_base64 3 (v mod 4) 0 (out @ [char_of (leftchar * 16 + v div 4)]) cs
             else a2b_base64 0 0 0 (out @ [char_of (leftchar * 64 + v)]) cs)))"

definition urlsafe_b64decode :: "string \<Rightarrow> py_error + string" where
  "urlsafe_b64decode s =
     (if \<exists>c \<in> set s. (of_char c :: nat) \<ge> 128 then Inl ValueError
      else a2b_base64 0 0 0 [] s)"

text \<open>
  \<^verbatim>\<open>bytes.decode('utf-8')\<close>: the well-formed byte sequences of UTF-8 (no overlong forms,
  no surrogates, nothing above U+10FFFF); anything else raises \<^verbatim>\<open>UnicodeDecodeError\<close>.
\<close>

definition cont_byte :: "nat \<Rightarrow> bool" where
  "cont_byte b = (128 \<le> b \<and> b \<le> 191)"

fun utf8_wf :: "nat list \<Rightarrow> bool" where
  "utf8_wf [] = True"
| "utf8_wf (b0 # bs) =
     (if b0 < 128 then utf8_wf bs
      else if 194 \<le> b0 \<and> b0 \<le> 223 then
        (case bs of b1 # r \<Rightarrow> cont_byte b1 \<and> utf8_wf r | _ \<Rightarrow> False)
      else if 224 \<le> b0 \<and> b0 \<le> 239 then
        (case bs of
           b1 # b2 # r \<Rightarrow>
             (if b0 = 224 then 160 \<le> b1 \<and> b1 \<le> 191
              else if b0 = 237 then 128 \<le> b1 \<and> b1 \<le> 159
              else cont_byte b1) \<and> cont_byte b2 \<and> utf8_wf r
         | _ \<Rightarrow> False)
      else if 240 \<le> b0 \<and> b0 \<le> 244 then
        (case bs of
           b1 # b2 # b3 # r \<Rightarrow>
             (if b0 = 240 then 144 \<le> b1 \<and> b1 \<le> 191
              else if b0 = 244 then 128 \<le> b1 \<and> b1 \<le> 143
              else cont_byte b1) \<and> cont_byte b2 \<and> cont_byte b3 \<and> utf8_wf r
         | _ \<Rightarrow> False)
      else False)"

definition decode_utf8 :: "string \<Rightarrow> py_error + string" where
  "decode_utf8 bs = (if utf8_wf (map of_char bs) then Inr bs else Inl UnicodeDecodeError)"

text \<open>\<^verbatim>\<open>base64.urlsafe_b64decode(d).decode('utf-8')\<close>.\<close>

definition decode_data :: "string \<Rightarrow> py_error + string" where
  "decode_data d =
     (case urlsafe_b64decode d of
        Inl e \<Rightarrow> Inl e
      | Inr bs \<Rightarrow> decode_utf8 bs)"

subsection \<open>\<^verbatim>\<open>reply_to_message\<close>\<close>

text \<open>
  Lines 475--499: from the original message fetched in the \<^verbatim>\<open>full\<close> format to the reply
  that is sent. \<^verbatim>\<open>original_message['payload']['headers']\<close> raises \<^verbatim>\<open>KeyError\<close> when a
  key is missing.
\<close>

definition reply_to_message :: "gmail_message \<Rightarrow> string \<Rightarrow> string option \<Rightarrow> py_error + mime" where
  "reply_to_message original_message body' html_body =
     (case payload original_message of
        None \<Rightarrow> Inl KeyError
      | Some p \<Rightarrow>
         (case headers p of
            None \<Rightarrow> Inl KeyError
          | Some hl \<Rightarrow>
             (let hdrs = dict_of hl;
                  subject0 = dict_get hdrs ''Subject'' '''';
                  subject = (if \<not> prefix ''Re:'' subject0 then ''Re: '' @ subject0 else subject0);
                  from_email = hd (split_on CHR ''>'' (last (split_on CHR ''<'' (dict_get hdrs ''From'' ''''))));
                  message_id = dict_get hdrs ''Message-ID'' '''';
                  references0 = dict_get hdrs ''References'' '''';
                  references =
                    (if message_id \<noteq> [] then
                       (if references0 \<noteq> [] then references0 @ '' '' @ message_id
                        else message_id)
                     else references0)
              in Inr (MIMEMultipart (if truthy html_body then ''alternative'' else ''mixed'')
                        [(''To'', from_email), (''Subject'', subject),
                         (''In-Reply-To'', message_id), (''References'', references)]
                        (MIMEText body' ''plain'' #
                           (if truthy html_body then [MIMEText (the html_body) ''html''] else []))))))"

text \<open>An original message in the \<^verbatim>\<open>full\<close> format with the header list \<open>hl\<close>.\<close>

definition with_headers :: "(string \<times> string) list \<Rightarrow> gmail_message" where
  "with_headers hl =
     \<lparr>payload = Some (MessagePart (Some ''multipart/mixed'') (Some hl) (Some (PartBody None)) None),
      raw = None\<rparr>"

text \<open>The header \<open>name\<close> of the message a builder returned; \<open>None\<close> when it raised.\<close>

definition sent_header :: "py_error + mime \<Rightarrow> string \<Rightarrow> string option" where
  "sent_header r name = (case r of Inl e \<Rightarrow> None | Inr m \<Rightarrow> mime_header m name)"

subsection \<open>\<^verbatim>\<open>forward_message\<close>\<close>

definition newline :: string where
  "newline = [CHR 0x0A]"

definition forwarded_banner :: string where
  "forwarded_banner = ''---------- Forwarded Message ----------'' @ newline @ newline"

text \<open>
  Lines 425--426: the dictionary of the header block of the decoded raw message. The block
  is the text before the first empty line; every line of it that contains a colon is split
  at its first colon (\<^verbatim>\<open>':' in line\<close> holds exactly when \<open>split_once '':''\<close> finds one).
\<close>

definition raw_headers :: "string \<Rightarrow> (string \<rightharpoonup> string)" where
  "raw_headers raw_message =
     dict_of (List.map_filter (split_once '':'')
                (split_on CHR 0x0A (first_piece (newline @ newline) raw_message)))"

text \<open>
  Lines 415--443: from the original message fetched in the \<^verbatim>\<open>raw\<close> format to the
  message that is sent. \<^verbatim>\<open>MIMEMultipart()\<close> has the subtype \<^verbatim>\<open>mixed\<close>.
\<close>

definition forward_message :: "gmail_message \<Rightarrow> string \<Rightarrow> string option \<Rightarrow> py_error + mime" where
  "forward_message original_message to additional_body =
     (case raw original_message of
        None \<Rightarrow> Inl KeyError
      | Some r \<Rightarrow>
         (case decode_data r of
            Inl e \<Rightarrow> Inl e
          | Inr raw_message \<Rightarrow>
             (let subject0 = strip (dict_get (raw_headers raw_message) ''Subject'' []);
                  subject = (if \<not> prefix ''Fwd:'' subject0 then ''Fwd: '' @ subject0 else subject0);
                  note =
                    (if truthy additional_body
                     then MIMEText (the additional_body @ newline @ newline @ forwarded_banner) ''plain''
                     else MIMEText forwarded_banner ''plain'')
              in Inr (MIMEMultipart ''mixed'' [(''To'', to), (''Subject'', subject)]
                        (note #
                           (case split_once (newline @ newline) raw_message of
                              None \<Rightarrow> []
                            | Some (h, b) \<Rightarrow> [MIMEText b ''plain'']))))))"

subsection \<open>\<^verbatim>\<open>get_message_body\<close>\<close>

text \<open>
  The loop of lines 321--325 over the sub-parts, with the list \<^verbatim>\<open>parts\<close> collected so
  far. Only the sub-parts themselves are visited, never their own sub-parts.
\<close>

fun collect_parts :: "message_part list \<Rightarrow> string list \<Rightarrow> py_error + string list" where
  "collect_parts [] acc = Inr acc"
| "collect_parts (part # rest) acc =
     (case mimeType part of
        None \<Rightarrow> Inl KeyError
      | Some mt \<Rightarrow>
         (if mt = ''text/plain'' then
            (case body part of
               None \<Rightarrow> Inl KeyError
             | Some b \<Rightarrow>
                (case data b of
                   None \<Rightarrow> collect_parts rest acc
                 | Some body_data \<Rightarrow>
                    (case decode_data body_data of
                       Inl e \<Rightarrow> Inl e
                     | Inr body_text \<Rightarrow> collect_parts rest (acc @ [body_text]))))
          else collect_parts rest acc))"

definition get_message_body :: "gmail_message \<Rightarrow> py_error + string" where
  "get_message_body message =
     (case payload message of
        None \<Rightarrow> Inr []
      | Some p \<Rightarrow>
         (case parts p of
            Some ps \<Rightarrow>
              (case collect_parts ps [] of
                 Inl e \<Rightarrow> Inl e
               | Inr texts \<Rightarrow> Inr (join newline texts))
          | None \<Rightarrow>
              (case body p of
                 None \<Rightarrow> Inr (join newline [])
               | Some b \<Rightarrow>
                  (case data b of
                     None \<Rightarrow> Inr (join newline [])
                   | Some body_data \<Rightarrow>
                      (case decode_data body_data of
                         Inl e \<Rightarrow> Inl e
                       | Inr body_text \<Rightarrow> Inr (join newline [body_text]))))))"

subsection \<open>\<^verbatim>\<open>send_message\<close>\<close>





text \<open>An original message in the \<^verbatim>\<open>raw\<close> format with the base64url text \<open>r\<close>.\<close>

definition raw_message :: "string \<Rightarrow> gmail_message" where
  "raw_message r = \<lparr>payload = None, raw = Some r\<rparr>"

subsection \<open>Notions used to state the properties\<close>


text \<open>
  The \<^verbatim>\<open>data\<close> of the direct sub-parts that declare the type \<^verbatim>\<open>text/plain\<close> and carry
  data, in order.
\<close>

definition plain_data :: "message_part list \<Rightarrow> string list" where
  "plain_data ps =
     List.map_filter
       (\<lambda>p. if mimeType p = Some ''text/plain''
            then (case body p of None \<Rightarrow> None | Some b \<Rightarrow> data b)
            else None) ps"

text \<open>
  Every sub-part has the keys the loop reads: \<^verbatim>\<open>mimeType\<close>, and \<^verbatim>\<open>body\<close> when the type
  is \<^verbatim>\<open>text/plain\<close>.
\<close>

definition parts_have_keys :: "message_part list \<Rightarrow> bool" where
  "parts_have_keys ps =
     list_all (\<lambda>p. mimeType p \<noteq> None \<and> (mimeType p = Some ''text/plain'' \<longrightarrow> body p \<noteq> None)) ps"



text \<open>Sub-parts for the examples: two plain parts around an HTML part.\<close>

definition foo_bar_parts :: "message_part list" where
  "foo_bar_parts =
     [MessagePart (Some ''text/plain'') (Some []) (Some (PartBody (Some ''Zm9v''))) None,
      MessagePart (Some ''text/html'') (Some []) (Some (PartBody (Some ''PGI-aGk8L2I-''))) None,
      MessagePart (Some ''text/plain'') (Some []) (Some (PartBody (Some ''YmFy''))) None]"

subsection \<open>\<^verbatim>\<open>_get_gmail_service\<close>\<close>

text \<open>
  What \<^verbatim>\<open>pickle.load\<close> can return from the token file. An object of
  \<^verbatim>\<open>google.oauth2.credentials.Credentials\<close> is seen through what the function reads of
  it: the names \<^verbatim>\<open>hasattr\<close> finds (\<open>attrs\<close>), the properties \<^verbatim>\<open>valid\<close> and \<^verbatim>\<open>expired\<close>
  and the refresh token; \<open>token\<close> is the access token. \<open>PyFalsy\<close> is any object that is
  false in a condition (\<^verbatim>\<open>None\<close> among them).
\<close>

record credentials =
  attrs :: "string list"
  valid :: bool
  expired :: bool
  refresh_token :: "string option"
  token :: string

datatype pyobj = PyFalsy | Creds credentials

datatype service = Service credentials

text \<open>\<^verbatim>\<open>credentials.json\<close>: unreadable, holding a \<^verbatim>\<open>web\<close> or \<^verbatim>\<open>installed\<close> client, or other JSON.\<close>

datatype config_file = ConfigUnreadable | ConfigClient | ConfigOther

text \<open>\<^verbatim>\<open>pickle.dump(creds, token)\<close>: the bytes written, and whether it raised after them.\<close>

datatype dump_result = Dumped string | DumpFailed string

text \<open>
  What the function does to the world, in order: the refresh request to the token endpoint,
  the prompt for a client id and secret, the interactive authorisation flow, and the
  operations on files (\<^verbatim>\<open>open(path, 'wb')\<close>, which truncates the file, the bytes written
  through the file object, and the close at the end of the \<^verbatim>\<open>with\<close> block).
\<close>

datatype event =
    Refresh
  | PromptClientConfig
  | RunFlow
  | OpenTruncate string
  | WriteBytes string string
  | CloseFile string

text \<open>
  The world the function runs in. \<open>disk\<close> maps a path to the content of the file there;
  \<open>unpickle\<close>, \<open>refresh\<close>, \<open>run_flow\<close> give \<open>None\<close> where the call raises; \<open>prompt_ok\<close> is
  false where \<^verbatim>\<open>input()\<close> raises; \<open>token_writable\<close> is false where \<^verbatim>\<open>open(token_file,
  'wb')\<close> raises; \<open>build_ok\<close> is false where \<^verbatim>\<open>build\<close> raises.
\<close>

record auth_env =
  token_file :: string
  disk :: "string \<rightharpoonup> string"
  unpickle :: "string \<Rightarrow> pyobj option"
  refresh :: "credentials \<Rightarrow> credentials option"
  credentials_file :: config_file
  prompt_ok :: bool
  run_flow :: "credentials option"
  token_writable :: bool
  pickle_dump :: "credentials \<Rightarrow> dump_result"
  build_ok :: "credentials \<Rightarrow> bool"

definition required_fields :: "string list" where
  "required_fields = [''refresh_token'', ''token_uri'', ''client_id'', ''client_secret'']"

text \<open>
  Lines 162--177: the credential loaded from the token file; \<open>None\<close> stands for
  \<^verbatim>\<open>creds\<close> being \<^verbatim>\<open>None\<close> or another false object, which the rest of the function
  treats alike.
\<close>

definition load_token :: "auth_env \<Rightarrow> credentials option" where
  "load_token env =
     (case disk env (token_file env) of
        None \<Rightarrow> None
      | Some bytes \<Rightarrow>
         (case unpickle env bytes of
            None \<Rightarrow> None
          | Some PyFalsy \<Rightarrow> None
          | Some (Creds c) \<Rightarrow>
              (if \<not> list_all (\<lambda>field. field \<in> set (attrs c)) required_fields then None
               else Some c)))"

text \<open>
  Lines 213--215, the \<^verbatim>\<open>with open(self.token_file, 'wb') as token\<close> block: the events and
  the exception that leaves the block, if any. The file that is opened is the token file
  itself, and the \<^verbatim>\<open>with\<close> statement closes it also when \<^verbatim>\<open>pickle.dump\<close> raises.
\<close>

definition save_token :: "auth_env \<Rightarrow> credentials \<Rightarrow> event list \<times> py_error option" where
  "save_token env creds =
     (if \<not> token_writable env then ([], Some OSError)
      else
        (case pickle_dump env creds of
           Dumped bytes \<Rightarrow>
             ([OpenTruncate (token_file env), WriteBytes (token_file env) bytes,
               CloseFile (token_file env)], None)
         | DumpFailed bytes \<Rightarrow>
             ([OpenTruncate (token_file env), WriteBytes (token_file env) bytes,
               CloseFile (token_file env)], Some PicklingError)))"

text \<open>\<^verbatim>\<open>build('gmail', 'v1', credentials=creds)\<close> inside its \<^verbatim>\<open>try\<close> (lines 220--223).\<close>

definition build_service :: "auth_env \<Rightarrow> credentials \<Rightarrow> py_error + service" where
  "build_service env creds = (if build_ok env creds then Inr (Service creds) else Inl ValueError)"

text \<open>
  Lines 190--204: the client configuration for the flow. The events, and \<open>False\<close> when the
  prompt raises out of the function: a prompt that fails inside the \<^verbatim>\<open>try\<close> is caught and
  the prompt of the handler runs, and fails, next.
\<close>

definition client_config_for_flow :: "auth_env \<Rightarrow> event list \<times> bool" where
  "client_config_for_flow env =
     (case credentials_file env of
        ConfigClient \<Rightarrow> ([], True)
      | ConfigOther \<Rightarrow>
          (if prompt_ok env then ([PromptClientConfig], True)
           else ([PromptClientConfig, PromptClientConfig], False))
      | ConfigUnreadable \<Rightarrow> ([PromptClientConfig], prompt_ok env))"

text \<open>Lines 189--217: the authorisation flow, entered when \<^verbatim>\<open>creds\<close> is false.\<close>

definition authorize :: "auth_env \<Rightarrow> event list \<times> (py_error + service)" where
  "authorize env =
     (case client_config_for_flow env of
        (prompts, False) \<Rightarrow> (prompts, Inl EOFError)
      | (prompts, True) \<Rightarrow>
         (case run_flow env of
            None \<Rightarrow> (prompts @ [RunFlow], Inl ValueError)
          | Some creds \<Rightarrow>
             (case save_token env creds of
                (writes, Some e) \<Rightarrow> (prompts @ [RunFlow] @ writes, Inl ValueError)
              | (writes, None) \<Rightarrow> (prompts @ [RunFlow] @ writes, build_service env creds))))"

text \<open>Lines 162--223: the events of a run and the service it returns, or its exception.\<close>

definition get_gmail_service :: "auth_env \<Rightarrow> event list \<times> (py_error + service)" where
  "get_gmail_service env =
     (case load_token env of
        None \<Rightarrow> authorize env
      | Some creds \<Rightarrow>
         (if \<not> valid creds then
            (if expired creds \<and> truthy (refresh_token creds) then
               (case refresh env creds of
                  None \<Rightarrow> (case authorize env of (evs, r) \<Rightarrow> (Refresh # evs, r))
                | Some refreshed \<Rightarrow> ([Refresh], build_service env refreshed))
             else ([], build_service env creds))
          else ([], build_service env creds)))"

text \<open>
  The effect of an event on the files: the files as another process finds them, and the
  bytes held in the buffer of each open file object. \<^verbatim>\<open>open(path, 'wb')\<close> truncates the
  file at once; the bytes written through the file object stay in its buffer until they
  are flushed, which for a write that fits the buffer, as that of a pickled credential,
  happens when the file is closed.
\<close>

type_synonym file_state = "(string \<rightharpoonup> string) \<times> (string \<rightharpoonup> string)"

fun apply_event :: "event \<Rightarrow> file_state \<Rightarrow> file_state" where
  "apply_event (OpenTruncate p) (d, buffered) = (d(p \<mapsto> []), buffered(p \<mapsto> []))"
| "apply_event (WriteBytes p bytes) (d, buffered) =
     (d, buffered(p \<mapsto> (case buffered p of None \<Rightarrow> bytes | Some pending \<Rightarrow> pending @ bytes)))"
| "apply_event (CloseFile p) (d, buffered) =
     (case buffered p of
        None \<Rightarrow> (d, buffered)
      | Some pending \<Rightarrow>
          (d(p \<mapsto> (case d p of None \<Rightarrow> pending | Some written \<Rightarrow> written @ pending)),
           buffered(p := None)))"
| "apply_event Refresh s = s"
| "apply_event PromptClientConfig s = s"
| "apply_event RunFlow s = s"

text \<open>
  The contents of the file at \<open>path\<close> after each event of a run that starts with the files
  \<open>d\<close> and no open file: what another process, or this one after a crash at that point,
  finds.
\<close>

fun contents_from :: "string \<Rightarrow> event list \<Rightarrow> file_state \<Rightarrow> string option list" where
  "contents_from path [] s = []"
| "contents_from path (e # es) s =
     fst (apply_event e s) path # contents_from path es (apply_event e s)"

definition contents_during :: "string \<Rightarrow> event list \<Rightarrow> (string \<rightharpoonup> string) \<Rightarrow> string option list" where
  "contents_during path es d = contents_from path es (d, Map.empty)"

text \<open>Worlds for the examples.\<close>

definition good_creds :: credentials where
  "good_creds =
     \<lparr>attrs = [''token'', ''refresh_token'', ''token_uri'', ''client_id'', ''client_secret''],
      valid = True, expired = False, refresh_token = Some ''1//refresh'', token = ''ya29.a''\<rparr>"

definition new_creds :: credentials where
  "new_creds = good_creds\<lparr>token := ''ya29.b''\<rparr>"

text \<open>A token file that holds a valid credential.\<close>

definition stored_env :: auth_env where
  "stored_env =
     \<lparr>token_file = ''token.pickle'',
      disk = [''token.pickle'' \<mapsto> ''pickle-of-a''],
      unpickle = (\<lambda>bytes. if bytes = ''pickle-of-a'' then Some (Creds good_creds) else None),
      refresh = (\<lambda>c. None),
      credentials_file = ConfigClient,
      prompt_ok = False,
      run_flow = Some new_creds,
      token_writable = True,
      pickle_dump = (\<lambda>c. Dumped ''pickle-of-b''),
      build_ok = (\<lambda>c. True)\<rparr>"

text \<open>A token file with content that cannot be loaded; the flow succeeds.\<close>

definition stale_env :: auth_env where
  "stale_env = stored_env\<lparr>disk := [''token.pickle'' \<mapsto> ''old-content'']\<rparr>"

text \<open>The same, with a \<^verbatim>\<open>pickle.dump\<close> that raises after it has written three bytes.\<close>

definition failing_dump_env :: auth_env where
  "failing_dump_env = stale_env\<lparr>pickle_dump := (\<lambda>c. DumpFailed ''pic'')\<rparr>"

section \<open>Properties\<close>

lemma split_on_not_Nil: "split_on c s \<noteq> []"
  by (induction s) (auto split: list.splits)


subsection \<open>Dictionaries and splitting\<close>

lemma dict_of_foldl:
  "foldl (\<lambda>m (k, v). m(k \<mapsto> v)) m0 kvs = m0 ++ map_of (rev kvs)"
  by (induction kvs arbitrary: m0) (auto simp: map_add_def fun_eq_iff split: option.splits)

text \<open>The dictionary holds, for each name, the value of the last pair with that name.\<close>

lemma dict_of_map_of: "dict_of kvs = map_of (rev kvs)"
  by (simp add: dict_of_def dict_of_foldl)

lemma dict_of_None_iff: "dict_of kvs k = None \<longleftrightarrow> k \<notin> fst ` set kvs"
  by (simp add: dict_of_map_of map_of_eq_None_iff)

lemma dict_get_Some: "d k = Some v \<Longrightarrow> dict_get d k dflt = v"
  by (simp add: dict_get_def)

lemma dict_get_absent: "k \<notin> fst ` set kvs \<Longrightarrow> dict_get (dict_of kvs) k dflt = dflt"
  by (simp add: dict_get_def dict_of_None_iff [THEN iffD2])

lemma split_on_no_sep: "c \<notin> set s \<Longrightarrow> split_on c s = [s]"
  by (induction s) auto

lemma split_on_append:
  "split_on c (xs @ c # ys) = split_on c xs @ split_on c ys"
proof (induction xs)
  case Nil
  show ?case by simp
next
  case (Cons x xs)
  obtain p ps where "split_on c xs = p # ps"
    using split_on_not_Nil [of c xs] by (cases "split_on c xs") auto
  with Cons show ?case by simp
qed

lemma hd_split_on_append:
  "c \<notin> set a \<Longrightarrow> hd (split_on c (a @ c # rest)) = a"
  by (simp add: split_on_append split_on_no_sep)

lemma last_split_on_append:
  "last (split_on c (pre @ c # rest)) = last (split_on c rest)"
  by (simp add: split_on_append split_on_not_Nil)

subsection \<open>The reply, header by header\<close>

lemma reply_to_message_Inr:
  assumes "payload om = Some p" and "headers p = Some hl"
  shows "reply_to_message om b h =
     Inr (MIMEMultipart (if truthy h then ''alternative'' else ''mixed'')
            [(''To'', hd (split_on CHR ''>'' (last (split_on CHR ''<'' (dict_get (dict_of hl) ''From'' []))))),
             (''Subject'', (if prefix ''Re:'' (dict_get (dict_of hl) ''Subject'' [])
                            then dict_get (dict_of hl) ''Subject'' []
                            else ''Re: '' @ dict_get (dict_of hl) ''Subject'' [])),
             (''In-Reply-To'', dict_get (dict_of hl) ''Message-ID'' []),
             (''References'',
                (if dict_get (dict_of hl) ''Message-ID'' [] \<noteq> [] then
                   (if dict_get (dict_of hl) ''References'' [] \<noteq> []
                    then dict_get (dict_of hl) ''References'' [] @ '' '' @ dict_get (dict_of hl) ''Message-ID'' []
                    else dict_get (dict_of hl) ''Message-ID'' [])
                 else dict_get (dict_of hl) ''References'' []))]
            (MIMEText b ''plain'' # (if truthy h then [MIMEText (the h) ''html''] else [])))"
  using assms by (simp add: reply_to_message_def Let_def)

lemma reply_To:
  assumes "payload om = Some p" and "headers p = Some hl"
  shows "sent_header (reply_to_message om b h) ''To'' =
     Some (hd (split_on CHR ''>'' (last (split_on CHR ''<'' (dict_get (dict_of hl) ''From'' [])))))"
  by (simp add: reply_to_message_Inr [OF assms] sent_header_def)

lemma reply_Subject:
  assumes "payload om = Some p" and "headers p = Some hl"
  shows "sent_header (reply_to_message om b h) ''Subject'' =
     Some (if prefix ''Re:'' (dict_get (dict_of hl) ''Subject'' [])
           then dict_get (dict_of hl) ''Subject'' []
           else ''Re: '' @ dict_get (dict_of hl) ''Subject'' [])"
  by (simp add: reply_to_message_Inr [OF assms] sent_header_def)

lemma reply_In_Reply_To:
  assumes "payload om = Some p" and "headers p = Some hl"
  shows "sent_header (reply_to_message om b h) ''In-Reply-To'' =
     Some (dict_get (dict_of hl) ''Message-ID'' [])"
  by (simp add: reply_to_message_Inr [OF assms] sent_header_def)

lemma reply_References:
  assumes "payload om = Some p" and "headers p = Some hl"
  shows "sent_header (reply_to_message om b h) ''References'' =
     Some (if dict_get (dict_of hl) ''Message-ID'' [] \<noteq> [] then
             (if dict_get (dict_of hl) ''References'' [] \<noteq> []
              then dict_get (dict_of hl) ''References'' [] @ '' '' @ dict_get (dict_of hl) ''Message-ID'' []
              else dict_get (dict_of hl) ''Message-ID'' [])
           else dict_get (dict_of hl) ''References'' [])"
  by (simp add: reply_to_message_Inr [OF assms] sent_header_def)

lemma with_headers_sel:
  "payload (with_headers hl) =
     Some (MessagePart (Some ''multipart/mixed'') (Some hl) (Some (PartBody None)) None)"
  "headers (MessagePart (Some ''multipart/mixed'') (Some hl) (Some (PartBody None)) None) = Some hl"
  by (simp_all add: with_headers_def)


section \<open>The threading engine: \<^verbatim>\<open>reply_to_message\<close>\<close>

subsection \<open>C1: In-Reply-To and References\<close>

text \<open>
  The claim, as the spec states it, fails on the code: when the original message has no
  \<^verbatim>\<open>Message-ID\<close> header but has a \<^verbatim>\<open>References\<close> header, the reply's \<^verbatim>\<open>References\<close>
  is the original's, not the empty string.
\<close>

theorem reply_references_counterexample:
  "sent_header (reply_to_message (with_headers [(''References'', ''<a> <b>'')]) ''hi'' None)
     ''In-Reply-To'' = Some []
   \<and> sent_header (reply_to_message (with_headers [(''References'', ''<a> <b>'')]) ''hi'' None)
     ''References'' = Some ''<a> <b>''
   \<and> sent_header (reply_to_message (with_headers [(''References'', ''<a> <b>'')]) ''hi'' None)
     ''References'' \<noteq> Some []"
  by (simp add: reply_to_message_def with_headers_def sent_header_def dict_of_def dict_get_def)

text \<open>
  C1 (amended). For every reply built by the connector from an original message with the
  header list \<open>hl\<close> (\<open>dict_of hl name = Some v\<close>: the last header called exactly \<open>name\<close> has
  the value \<open>v\<close>): when the original has a non-empty \<^verbatim>\<open>Message-ID\<close>, \<^verbatim>\<open>In-Reply-To\<close> is
  that Message-ID and \<^verbatim>\<open>References\<close> is the original non-empty \<^verbatim>\<open>References\<close> with the
  Message-ID appended after a single space, or just the Message-ID when the original has no
  \<^verbatim>\<open>References\<close> header; when the original has no \<^verbatim>\<open>Message-ID\<close> header, \<^verbatim>\<open>In-Reply-To\<close>
  is the empty string (none is fabricated) and \<^verbatim>\<open>References\<close> is the original's
  \<^verbatim>\<open>References\<close> unchanged, the empty string when the original has none.
\<close>

theorem reply_threading_headers:
  assumes "payload om = Some p" and "headers p = Some hl"
  shows "(dict_of hl ''Message-ID'' = Some mid \<and> mid \<noteq> [] \<and>
          dict_of hl ''References'' = Some refs \<and> refs \<noteq> [] \<longrightarrow>
            sent_header (reply_to_message om b h) ''In-Reply-To'' = Some mid \<and>
            sent_header (reply_to_message om b h) ''References'' = Some (refs @ '' '' @ mid))
       \<and> (dict_of hl ''Message-ID'' = Some mid \<and> mid \<noteq> [] \<and>
          ''References'' \<notin> fst ` set hl \<longrightarrow>
            sent_header (reply_to_message om b h) ''In-Reply-To'' = Some mid \<and>
            sent_header (reply_to_message om b h) ''References'' = Some mid)
       \<and> (''Message-ID'' \<notin> fst ` set hl \<and> dict_of hl ''References'' = Some refs \<longrightarrow>
            sent_header (reply_to_message om b h) ''In-Reply-To'' = Some [] \<and>
            sent_header (reply_to_message om b h) ''References'' = Some refs)
       \<and> (''Message-ID'' \<notin> fst ` set hl \<and> ''References'' \<notin> fst ` set hl \<longrightarrow>
            sent_header (reply_to_message om b h) ''In-Reply-To'' = Some [] \<and>
            sent_header (reply_to_message om b h) ''References'' = Some [])"
  by (simp add: reply_In_Reply_To [OF assms] reply_References [OF assms]
        dict_get_Some dict_get_absent)

text \<open>
  The spec's examples: References \<^verbatim>\<open><a> <b>\<close> and Message-ID \<^verbatim>\<open><c>\<close> give
  \<^verbatim>\<open><a> <b> <c>\<close>; no References and Message-ID \<^verbatim>\<open><c>\<close> give \<^verbatim>\<open><c>\<close>; neither gives
  the empty string.
\<close>

theorem reply_threading_headers_witness:
  "sent_header (reply_to_message
       (with_headers [(''References'', ''<a> <b>''), (''Message-ID'', ''<c>'')]) ''hi'' None)
     ''References'' = Some ''<a> <b> <c>''
   \<and> sent_header (reply_to_message (with_headers [(''Message-ID'', ''<c>'')]) ''hi'' None)
     ''References'' = Some ''<c>''
   \<and> sent_header (reply_to_message (with_headers [(''Subject'', ''Hello'')]) ''hi'' None)
     ''References'' = Some []"
proof -
  have a: "dict_of [(''References'', ''<a> <b>''), (''Message-ID'', ''<c>'')] ''Message-ID'' = Some ''<c>''"
          "dict_of [(''References'', ''<a> <b>''), (''Message-ID'', ''<c>'')] ''References'' = Some ''<a> <b>''"
          "dict_of [(''Message-ID'', ''<c>'')] ''Message-ID'' = Some ''<c>''"
    by (simp_all add: dict_of_def)
  show ?thesis
    using reply_threading_headers [OF with_headers_sel, of "[(''References'', ''<a> <b>''), (''Message-ID'', ''<c>'')]" "''<c>''" "''<a> <b>''" "''hi''" None]
      reply_threading_headers [OF with_headers_sel, of "[(''Message-ID'', ''<c>'')]" "''<c>''" "[]" "''hi''" None]
      reply_threading_headers [OF with_headers_sel, of "[(''Subject'', ''Hello'')]" "[]" "[]" "''hi''" None]
      a
    by simp
qed

subsection \<open>C5: the reply's target address\<close>

text \<open>
  The claim fails on the code where the \<^verbatim>\<open>From\<close> header holds several addresses in angle
  brackets: \<^verbatim>\<open>split('<')[-1]\<close> takes the text after the last \<^verbatim>\<open><\<close>, so the last
  address is used, not the first.
\<close>

theorem reply_first_address_counterexample:
  "sent_header (reply_to_message
       (with_headers [(''From'', ''Alice <alice@example.com>, Bob <bob@example.com>'')]) ''hi'' None)
     ''To'' = Some ''bob@example.com''
   \<and> sent_header (reply_to_message
       (with_headers [(''From'', ''Alice <alice@example.com>, Bob <bob@example.com>'')]) ''hi'' None)
     ''To'' \<noteq> Some ''alice@example.com''"
  by (simp add: reply_to_message_def with_headers_def sent_header_def dict_of_def dict_get_def)

text \<open>
  C5 (amended). For every reply, the target \<^verbatim>\<open>To\<close> address is the bare address extracted
  from the original message's \<^verbatim>\<open>From\<close> header: the text between the last \<^verbatim>\<open><\<close> of the
  header and the first \<^verbatim>\<open>>\<close> after it. Text outside these angle brackets is discarded, and
  when the header contains several \<^verbatim>\<open><...>\<close>-delimited addresses, only the last such
  address is honoured.
\<close>

theorem reply_target_address:
  assumes "payload om = Some p" and "headers p = Some hl"
    and "dict_of hl ''From'' = Some (pre @ ''<'' @ addr @ ''>'' @ post)"
    and "CHR ''<'' \<notin> set addr" and "CHR ''>'' \<notin> set addr" and "CHR ''<'' \<notin> set post"
  shows "sent_header (reply_to_message om b h) ''To'' = Some addr"
proof -
  have "last (split_on CHR ''<'' (pre @ CHR ''<'' # (addr @ CHR ''>'' # post)))
        = last (split_on CHR ''<'' (addr @ CHR ''>'' # post))"
    by (rule last_split_on_append)
  also have "\<dots> = addr @ CHR ''>'' # post"
    using assms(4,6) by (simp add: split_on_no_sep)
  finally show ?thesis
    using assms(3,5) by (simp add: reply_To [OF assms(1,2)] dict_get_def hd_split_on_append)
qed

theorem reply_target_address_witness:
  "sent_header (reply_to_message
       (with_headers [(''From'', ''Alice <alice@example.com>, Bob <bob@example.com>'')]) ''hi'' None)
     ''To'' = Some ''bob@example.com''
   \<and> sent_header (reply_to_message
       (with_headers [(''From'', ''Alice <alice@example.com>'')]) ''hi'' None)
     ''To'' = Some ''alice@example.com''"
proof -
  have a: "dict_of [(''From'', ''Alice <alice@example.com>, Bob <bob@example.com>'')] ''From''
           = Some (''Alice <alice@example.com>, Bob '' @ ''<'' @ ''bob@example.com'' @ ''>'' @ [])"
    and b: "dict_of [(''From'', ''Alice <alice@example.com>'')] ''From''
           = Some (''Alice '' @ ''<'' @ ''alice@example.com'' @ ''>'' @ [])"
    by (simp_all add: dict_of_def)
  have c: "CHR ''<'' \<notin> set ''bob@example.com''" "CHR ''>'' \<notin> set ''bob@example.com''"
     "CHR ''<'' \<notin> set ''alice@example.com''" "CHR ''>'' \<notin> set ''alice@example.com''"
     "CHR ''<'' \<notin> set []"
    by simp_all
  show ?thesis
    using reply_target_address [OF with_headers_sel a c(1) c(2) c(5), of "''hi''" None]
      reply_target_address [OF with_headers_sel b c(3) c(4) c(5), of "''hi''" None]
    by simp
qed

subsection \<open>C10: a From header without angle brackets\<close>

text \<open>
  The claim's last clause fails on the code: a \<^verbatim>\<open>From\<close> value with a \<^verbatim>\<open><\<close> and no \<^verbatim>\<open>>\<close>
  is altered too.
\<close>

theorem reply_one_bracket_counterexample:
  "sent_header (reply_to_message (with_headers [(''From'', ''<alice@example.com'')]) ''hi'' None)
     ''To'' = Some ''alice@example.com''
   \<and> ''alice@example.com'' \<noteq> ''<alice@example.com''
   \<and> CHR ''>'' \<notin> set ''<alice@example.com''"
  by (simp add: reply_to_message_def with_headers_def sent_header_def dict_of_def dict_get_def)

text \<open>
  C10 (amended). For every original message whose \<^verbatim>\<open>From\<close> header contains no angle
  bracket (for example a bare address like \<^verbatim>\<open>alice@example.com\<close>; \<open>f\<close> is the header's
  value, the empty string when the header is missing), the reply uses the entire value,
  unmodified, as the target address, and the extraction does not raise; the
  bracket-stripping rule only alters \<^verbatim>\<open>From\<close> values that contain \<^verbatim>\<open><\<close> or \<^verbatim>\<open>>\<close>.
\<close>

theorem reply_bare_from:
  assumes "payload om = Some p" and "headers p = Some hl"
    and "dict_get (dict_of hl) ''From'' [] = f"
    and "CHR ''<'' \<notin> set f" and "CHR ''>'' \<notin> set f"
  shows "\<exists>m. reply_to_message om b h = Inr m \<and> mime_header m ''To'' = Some f"
  using assms(3-5) by (simp add: reply_to_message_Inr [OF assms(1,2)] split_on_no_sep)

theorem reply_bare_from_witness:
  "\<exists>m. reply_to_message (with_headers [(''From'', ''alice@example.com'')]) ''hi'' None = Inr m
       \<and> mime_header m ''To'' = Some ''alice@example.com''"
proof -
  have a: "dict_get (dict_of [(''From'', ''alice@example.com'')]) ''From'' [] = ''alice@example.com''"
    by (simp add: dict_of_def dict_get_def)
  have c: "CHR ''<'' \<notin> set ''alice@example.com''" "CHR ''>'' \<notin> set ''alice@example.com''"
    by simp_all
  show ?thesis
    using reply_bare_from [OF with_headers_sel a c, of "''hi''" None] by simp
qed


subsection \<open>The forwarded message, header by header\<close>

lemma forward_message_Inr:
  assumes "raw om = Some r" and "decode_data r = Inr rm"
  shows "forward_message om to ab =
     Inr (MIMEMultipart ''mixed''
            [(''To'', to),
             (''Subject'', (if prefix ''Fwd:'' (strip (dict_get (raw_headers rm) ''Subject'' []))
                            then strip (dict_get (raw_headers rm) ''Subject'' [])
                            else ''Fwd: '' @ strip (dict_get (raw_headers rm) ''Subject'' [])))]
            ((if truthy ab
              then MIMEText (the ab @ newline @ newline @ forwarded_banner) ''plain''
              else MIMEText forwarded_banner ''plain'') #
             (case split_once (newline @ newline) rm of
                None \<Rightarrow> []
              | Some (hb, b) \<Rightarrow> [MIMEText b ''plain''])))"
  using assms by (simp add: forward_message_def Let_def)

lemma forward_Subject:
  assumes "raw om = Some r" and "decode_data r = Inr rm"
  shows "sent_header (forward_message om to ab) ''Subject'' =
     Some (if prefix ''Fwd:'' (strip (dict_get (raw_headers rm) ''Subject'' []))
           then strip (dict_get (raw_headers rm) ''Subject'' [])
           else ''Fwd: '' @ strip (dict_get (raw_headers rm) ''Subject'' []))"
  by (simp add: forward_message_Inr [OF assms] sent_header_def)

lemma strip_Nil: "strip [] = []"
  by (simp add: strip_def)

lemma raw_message_sel: "raw (raw_message r) = Some r"
  by (simp add: raw_message_def)

section \<open>Subjects and header lookup\<close>

subsection \<open>C6: the subject prefix\<close>

text \<open>
  C6. Subject prefixing is idempotent. For every original message, the reply adds the
  \<^verbatim>\<open>Re:\<close> prefix to the Subject \<open>s\<close> (the empty string when there is none) only if \<open>s\<close>
  does not already start with \<^verbatim>\<open>Re:\<close>, a case-sensitive exact-prefix check, so a Subject
  that starts with \<^verbatim>\<open>Re:\<close> stays as it is, and replying to a message that carries the
  Subject of a reply gives that Subject again; the forward adds the \<^verbatim>\<open>Fwd:\<close> prefix to
  the (stripped) Subject \<open>t\<close> of the raw message under the same rule.
\<close>

theorem subject_prefix_rule:
  "(payload om = Some p \<and> headers p = Some hl \<and> dict_get (dict_of hl) ''Subject'' [] = s \<longrightarrow>
      (prefix ''Re:'' s \<longrightarrow> sent_header (reply_to_message om b h) ''Subject'' = Some s) \<and>
      (\<not> prefix ''Re:'' s \<longrightarrow> sent_header (reply_to_message om b h) ''Subject'' = Some (''Re: '' @ s)))
   \<and> (payload om = Some p \<and> headers p = Some hl \<and>
      sent_header (reply_to_message om b h) ''Subject'' = Some s1 \<and>
      payload om2 = Some p2 \<and> headers p2 = Some hl2 \<and> dict_of hl2 ''Subject'' = Some s1 \<longrightarrow>
      sent_header (reply_to_message om2 b2 h2) ''Subject'' = Some s1)
   \<and> (raw om3 = Some r \<and> decode_data r = Inr rm \<and>
      strip (dict_get (raw_headers rm) ''Subject'' []) = t \<longrightarrow>
      (prefix ''Fwd:'' t \<longrightarrow> sent_header (forward_message om3 to ab) ''Subject'' = Some t) \<and>
      (\<not> prefix ''Fwd:'' t \<longrightarrow> sent_header (forward_message om3 to ab) ''Subject'' = Some (''Fwd: '' @ t)))"
proof (intro conjI impI)
  assume a: "payload om = Some p \<and> headers p = Some hl \<and>
      sent_header (reply_to_message om b h) ''Subject'' = Some s1 \<and>
      payload om2 = Some p2 \<and> headers p2 = Some hl2 \<and> dict_of hl2 ''Subject'' = Some s1"
  then have "prefix ''Re:'' s1"
    by (auto simp: reply_Subject [of om p hl] split: if_splits)
  with a show "sent_header (reply_to_message om2 b2 h2) ''Subject'' = Some s1"
    by (simp add: reply_Subject [of om2 p2 hl2] dict_get_Some)
qed (auto simp: reply_Subject forward_Subject)

text \<open>
  The spec's examples: \<^verbatim>\<open>Re: X\<close> stays \<^verbatim>\<open>Re: X\<close> and \<^verbatim>\<open>X\<close> becomes \<^verbatim>\<open>Re: X\<close>; the
  check is case-sensitive, so \<^verbatim>\<open>RE: X\<close> becomes \<^verbatim>\<open>Re: RE: X\<close>; a raw message with the
  header line \<^verbatim>\<open>Subject: Fwd: Plan\<close> is forwarded as \<^verbatim>\<open>Fwd: Plan\<close>.
\<close>

theorem subject_prefix_rule_witness:
  "sent_header (reply_to_message (with_headers [(''Subject'', ''Re: X'')]) ''hi'' None) ''Subject''
     = Some ''Re: X''
   \<and> sent_header (reply_to_message (with_headers [(''Subject'', ''X'')]) ''hi'' None) ''Subject''
     = Some ''Re: X''
   \<and> sent_header (reply_to_message (with_headers [(''Subject'', ''RE: X'')]) ''hi'' None) ''Subject''
     = Some ''Re: RE: X''
   \<and> sent_header (forward_message (raw_message ''U3ViamVjdDogRndkOiBQbGFuCgpib2R5IHRleHQ='') ''x@y'' None)
       ''Subject'' = Some ''Fwd: Plan''
   \<and> sent_header (forward_message (raw_message ''RnJvbTogYUBiCgpib2R5IHRleHQ='') ''x@y'' None)
       ''Subject'' = Some ''Fwd: ''"
proof -
  have d: "dict_get (dict_of [(''Subject'', ''Re: X'')]) ''Subject'' [] = ''Re: X''"
          "dict_get (dict_of [(''Subject'', ''X'')]) ''Subject'' [] = ''X''"
          "dict_get (dict_of [(''Subject'', ''RE: X'')]) ''Subject'' [] = ''RE: X''"
    by (simp_all add: dict_of_def dict_get_def)
  have r1: "decode_data ''U3ViamVjdDogRndkOiBQbGFuCgpib2R5IHRleHQ=''
              = Inr (''Subject: Fwd: Plan'' @ newline @ newline @ ''body text'')"
    by code_simp
  have r2: "decode_data ''RnJvbTogYUBiCgpib2R5IHRleHQ=''
              = Inr (''From: a@b'' @ newline @ newline @ ''body text'')"
    by code_simp
  have s1: "strip (dict_get (raw_headers (''Subject: Fwd: Plan'' @ newline @ newline @ ''body text''))
              ''Subject'' []) = ''Fwd: Plan''"
    by code_simp
  have s2: "strip (dict_get (raw_headers (''From: a@b'' @ newline @ newline @ ''body text''))
              ''Subject'' []) = []"
    by code_simp
  have p: "prefix ''Re:'' ''Re: X''" "\<not> prefix ''Re:'' ''X''" "\<not> prefix ''Re:'' ''RE: X''"
          "prefix ''Fwd:'' ''Fwd: Plan''" "\<not> prefix ''Fwd:'' []"
    by simp_all
  let ?P = "\<lambda>hl. MessagePart (Some ''multipart/mixed'') (Some hl) (Some (PartBody None)) None"
  let ?re = "[(''Subject'', ''Re: X'')]"
  let ?f1 = "''U3ViamVjdDogRndkOiBQbGFuCgpib2R5IHRleHQ=''"
  let ?f2 = "''RnJvbTogYUBiCgpib2R5IHRleHQ=''"
  let ?m1 = "''Subject: Fwd: Plan'' @ newline @ newline @ ''body text''"
  let ?m2 = "''From: a@b'' @ newline @ newline @ ''body text''"
  show ?thesis
    using
      subject_prefix_rule [of "with_headers ?re" "?P ?re" ?re "''Re: X''" "''hi''" None "''Re: X''"
        "with_headers ?re" "?P ?re" ?re "''hi''" None
        "raw_message ?f1" ?f1 ?m1 "''Fwd: Plan''" "''x@y''" None]
      subject_prefix_rule [of "with_headers [(''Subject'', ''X'')]" "?P [(''Subject'', ''X'')]"
        "[(''Subject'', ''X'')]" "''X''" "''hi''" None "''Re: X''"
        "with_headers ?re" "?P ?re" ?re "''hi''" None
        "raw_message ?f2" ?f2 ?m2 "[]" "''x@y''" None]
      subject_prefix_rule [of "with_headers [(''Subject'', ''RE: X'')]" "?P [(''Subject'', ''RE: X'')]"
        "[(''Subject'', ''RE: X'')]" "''RE: X''" "''hi''" None "''Re: RE: X''"
        "with_headers [(''Subject'', ''Re: RE: X'')]" "?P [(''Subject'', ''Re: RE: X'')]"
        "[(''Subject'', ''Re: RE: X'')]" "''hi''" None
        "raw_message ?f2" ?f2 ?m2 "[]" "''x@y''" None]
      d r1 r2 s1 s2 p
    by (simp add: with_headers_sel raw_message_sel)
qed



subsection \<open>The header block of a raw message\<close>

lemma split_once_Some:
  "split_once sep s = Some (a, b) \<Longrightarrow> s = a @ sep @ b"
proof (induction s arbitrary: a)
  case Nil
  then show ?case by simp
next
  case (Cons x xs)
  show ?case
  proof (cases "prefix sep (x # xs)")
    case True
    with Cons.prems have "a = []" "b = drop (length sep) (x # xs)"
      by simp_all
    with True show ?thesis
      by (auto simp: prefix_def)
  next
    case False
    with Cons.prems obtain a' where "split_once sep xs = Some (a', b)" "a = x # a'"
      by (auto split: option.splits)
    with Cons.IH show ?thesis by simp
  qed
qed

lemma split_once_colon:
  "CHR '':'' \<notin> set k \<Longrightarrow> split_once '':'' (k @ CHR '':'' # v) = Some (k, v)"
  by (induction k) auto

lemma map_filter_append:
  "List.map_filter f (xs @ ys) = List.map_filter f xs @ List.map_filter f ys"
  by (simp add: List.map_filter_def)

lemma no_line_no_key:
  assumes "\<forall>l\<in>set ls. \<not> prefix (k @ '':'') l"
  shows "k \<notin> fst ` set (List.map_filter (split_once '':'') ls)"
proof
  assume "k \<in> fst ` set (List.map_filter (split_once '':'') ls)"
  then obtain v where "(k, v) \<in> set (List.map_filter (split_once '':'') ls)"
    by auto
  then obtain l where l: "l \<in> set ls" "split_once '':'' l = Some (k, v)"
    by (auto simp: List.map_filter_def)
  from split_once_Some [OF l(2)] have "prefix (k @ '':'') l"
    by (simp add: prefix_def)
  with assms l(1) show False by blast
qed

text \<open>
  The dictionary of the header block, read off its lines: the last line that begins with
  \<open>k\<close> and a colon gives the value of \<open>k\<close>, all the text after that colon; when no line does,
  \<open>k\<close> is not a key.
\<close>

lemma raw_headers_last_line:
  assumes "split_on CHR 0x0A (first_piece (newline @ newline) rm) = pre @ (k @ '':'' @ v) # post"
    and "CHR '':'' \<notin> set k"
    and "\<forall>l\<in>set post. \<not> prefix (k @ '':'') l"
  shows "raw_headers rm k = Some v"
proof -
  have "map_of (rev (List.map_filter (split_once '':'') post)) k = None"
    using no_line_no_key [OF assms(3)] by (simp add: map_of_eq_None_iff)
  then show ?thesis
    using assms(1,2)
    by (simp add: raw_headers_def dict_of_map_of map_filter_append split_once_colon map_add_def)
qed

lemma raw_headers_no_line:
  assumes "\<forall>l\<in>set (split_on CHR 0x0A (first_piece (newline @ newline) rm)). \<not> prefix (k @ '':'') l"
  shows "raw_headers rm k = None"
  using no_line_no_key [OF assms] by (simp add: raw_headers_def dict_of_None_iff)

text \<open>
  Where the header block ends. A line feed that is not followed by another one is not the
  separator, so in a message with line feeds as line ends and header lines \<open>ls\<close> that are not
  empty, the lines of the block are \<open>ls\<close>.
\<close>

lemma split_once_skip_line:
  "CHR 0x0A \<notin> set l \<Longrightarrow> split_once (newline @ newline) s = Some (a, b) \<Longrightarrow>
     split_once (newline @ newline) (l @ s) = Some (l @ a, b)"
  by (induction l) (auto simp: newline_def)

lemma split_once_skip_feed:
  "y \<noteq> CHR 0x0A \<Longrightarrow> split_once (newline @ newline) (y # s) = Some (a, b) \<Longrightarrow>
     split_once (newline @ newline) (CHR 0x0A # y # s) = Some (CHR 0x0A # a, b)"
  by (auto simp: newline_def)

lemma split_once_separator:
  "split_once (newline @ newline) (newline @ newline @ rest) = Some ([], rest)"
  by (simp add: newline_def)

lemma split_once_header_block:
  assumes "ls \<noteq> []" and "\<forall>l\<in>set ls. l \<noteq> [] \<and> CHR 0x0A \<notin> set l"
  shows "split_once (newline @ newline) (join newline ls @ newline @ newline @ rest)
           = Some (join newline ls, rest)"
  using assms
proof (induction ls rule: induct_list012)
  case 1
  then show ?case by simp
next
  case (2 l)
  then have "CHR 0x0A \<notin> set l" by simp
  from split_once_skip_line [OF this split_once_separator, of rest] show ?case
    by simp
next
  case (3 l l' ls)
  then have l: "CHR 0x0A \<notin> set l" and l': "l' \<noteq> []" "CHR 0x0A \<notin> set l'"
    by simp_all
  from l' obtain y t where yt: "l' = y # t" "y \<noteq> CHR 0x0A"
    by (cases l') auto
  have IH: "split_once (newline @ newline) (join newline (l' # ls) @ newline @ newline @ rest)
              = Some (join newline (l' # ls), rest)"
    using 3 by simp
  obtain u where u: "join newline (l' # ls) = y # u"
    using yt by (cases ls) simp_all
  have "split_once (newline @ newline) (CHR 0x0A # y # (u @ newline @ newline @ rest))
          = Some (CHR 0x0A # y # u, rest)"
    using IH u by (intro split_once_skip_feed [OF yt(2)]) simp
  from split_once_skip_line [OF l this] u show ?case
    by (simp add: newline_def)
qed

lemma split_on_join:
  assumes "ls \<noteq> []" and "\<forall>l\<in>set ls. CHR 0x0A \<notin> set l"
  shows "split_on CHR 0x0A (join newline ls) = ls"
  using assms
proof (induction ls rule: induct_list012)
  case 1
  then show ?case by simp
next
  case (2 l)
  then show ?case by (simp add: split_on_no_sep)
next
  case (3 l l' ls)
  then have "split_on CHR 0x0A (join newline (l' # ls)) = l' # ls"
    by simp
  moreover have "split_on CHR 0x0A l = [l]"
    using 3 by (simp add: split_on_no_sep)
  ultimately show ?case
    using split_on_append [of "CHR 0x0A" l "join newline (l' # ls)"]
    by (simp add: newline_def)
qed

lemma header_block_lines:
  assumes "ls \<noteq> []" and "\<forall>l\<in>set ls. l \<noteq> [] \<and> CHR 0x0A \<notin> set l"
  shows "split_on CHR 0x0A
           (first_piece (newline @ newline) (join newline ls @ newline @ newline @ rest)) = ls"
  using assms by (simp add: first_piece_def split_once_header_block split_on_join)

subsection \<open>C7: header lookup\<close>

text \<open>
  The claim fails on the code: the header dictionary is keyed by the names as they are
  stored and \<^verbatim>\<open>headers.get('Subject', '')\<close> compares them exactly, so a Subject stored as
  \<^verbatim>\<open>SUBJECT\<close> is not found and the reply's Subject is \<^verbatim>\<open>Re: \<close> followed by nothing.
\<close>

theorem header_lookup_case_counterexample:
  "sent_header (reply_to_message (with_headers [(''SUBJECT'', ''Hello'')]) ''hi'' None) ''Subject''
     = Some ''Re: ''
   \<and> sent_header (reply_to_message (with_headers [(''SUBJECT'', ''Hello'')]) ''hi'' None) ''Subject''
     \<noteq> Some ''Re: Hello''"
  by (simp add: reply_to_message_def with_headers_def sent_header_def dict_of_def dict_get_def)

text \<open>
  C7 (amended). For reply and forward, extracting headers from the original message does
  not raise, whatever the header names and values are (embedded colons, unusual casing):
  a reply to a message in the \<^verbatim>\<open>full\<close> format and a forward of a decodable message in the
  \<^verbatim>\<open>raw\<close> format are always built. Header lookup by name is case-sensitive and exact.
  In the reply, the last header stored under exactly the name \<^verbatim>\<open>Subject\<close> is found and
  its value is used as it is; when no header is stored under exactly that name, as when it
  is stored as \<^verbatim>\<open>SUBJECT\<close>, the Subject is taken to be the empty string. In the forward,
  the header block is the decoded raw text before its first pair of consecutive line feeds,
  all of the text when there is none (as in a message whose line ends are CR LF); the last
  line of the block that begins with exactly \<^verbatim>\<open>Subject:\<close> gives the Subject, which is the
  text after that colon, embedded colons included, stripped; when no line of the block
  begins with \<^verbatim>\<open>Subject:\<close>, the Subject is taken to be the empty string. For a raw message
  made of non-empty header lines \<open>ls\<close> separated by line feeds, an empty line and a body, the
  lines of the block are \<open>ls\<close>.
\<close>

theorem header_extraction:
  "(payload om = Some p \<and> headers p = Some hl \<longrightarrow>
      (\<exists>m. reply_to_message om b h = Inr m) \<and>
      (dict_of hl ''Subject'' = Some v \<longrightarrow>
         sent_header (reply_to_message om b h) ''Subject'' =
           Some (if prefix ''Re:'' v then v else ''Re: '' @ v)) \<and>
      (''Subject'' \<notin> fst ` set hl \<longrightarrow>
         sent_header (reply_to_message om b h) ''Subject'' = Some ''Re: ''))
   \<and> (raw om' = Some r \<and> decode_data r = Inr rm \<longrightarrow>
      (\<exists>m. forward_message om' to ab = Inr m) \<and>
      (split_on CHR 0x0A (first_piece (newline @ newline) rm) = pre @ (''Subject:'' @ v') # post \<and>
       (\<forall>l\<in>set post. \<not> prefix ''Subject:'' l) \<longrightarrow>
         sent_header (forward_message om' to ab) ''Subject'' =
           Some (if prefix ''Fwd:'' (strip v') then strip v' else ''Fwd: '' @ strip v')) \<and>
      ((\<forall>l\<in>set (split_on CHR 0x0A (first_piece (newline @ newline) rm)).
          \<not> prefix ''Subject:'' l) \<longrightarrow>
         sent_header (forward_message om' to ab) ''Subject'' = Some ''Fwd: ''))
   \<and> (raw om' = Some r \<and> decode_data r = Inr (join newline ls @ newline @ newline @ rest) \<and>
      ls \<noteq> [] \<and> (\<forall>l\<in>set ls. l \<noteq> [] \<and> CHR 0x0A \<notin> set l) \<longrightarrow>
      (ls = pre @ (''Subject:'' @ v') # post \<and> (\<forall>l\<in>set post. \<not> prefix ''Subject:'' l) \<longrightarrow>
         sent_header (forward_message om' to ab) ''Subject'' =
           Some (if prefix ''Fwd:'' (strip v') then strip v' else ''Fwd: '' @ strip v')) \<and>
      ((\<forall>l\<in>set ls. \<not> prefix ''Subject:'' l) \<longrightarrow>
         sent_header (forward_message om' to ab) ''Subject'' = Some ''Fwd: ''))"
proof -
  have found: "sent_header (forward_message om' to ab) ''Subject'' =
          Some (if prefix ''Fwd:'' (strip v') then strip v' else ''Fwd: '' @ strip v')"
    if o: "raw om' = Some r" "decode_data r = Inr t"
      and lines: "split_on CHR 0x0A (first_piece (newline @ newline) t) = pre @ (''Subject:'' @ v') # post"
      and later: "\<forall>l\<in>set post. \<not> prefix ''Subject:'' l"
    for t
  proof -
    have "raw_headers t ''Subject'' = Some v'"
      using raw_headers_last_line [of t pre "''Subject''" v' post] lines later by simp
    then show ?thesis
      by (simp add: forward_Subject [OF o] dict_get_Some)
  qed
  have absent: "sent_header (forward_message om' to ab) ''Subject'' = Some ''Fwd: ''"
    if o: "raw om' = Some r" "decode_data r = Inr t"
      and none: "\<forall>l\<in>set (split_on CHR 0x0A (first_piece (newline @ newline) t)).
                   \<not> prefix ''Subject:'' l"
    for t
  proof -
    have "raw_headers t ''Subject'' = None"
      using raw_headers_no_line [of t "''Subject''"] none by simp
    then show ?thesis
      by (simp add: forward_Subject [OF o] dict_get_def strip_Nil)
  qed
  show ?thesis
  proof (intro conjI impI)
    assume a: "payload om = Some p \<and> headers p = Some hl"
    then have o: "payload om = Some p" "headers p = Some hl"
      by simp_all
    show "\<exists>m. reply_to_message om b h = Inr m"
      by (simp add: reply_to_message_Inr [OF o])
    show "sent_header (reply_to_message om b h) ''Subject'' =
            Some (if prefix ''Re:'' v then v else ''Re: '' @ v)"
      if "dict_of hl ''Subject'' = Some v"
      using that by (simp add: reply_Subject [OF o] dict_get_Some)
    show "sent_header (reply_to_message om b h) ''Subject'' = Some ''Re: ''"
      if "''Subject'' \<notin> fst ` set hl"
      using that by (simp add: reply_Subject [OF o] dict_get_absent)
  next
    assume a: "raw om' = Some r \<and> decode_data r = Inr rm"
    then have o: "raw om' = Some r" "decode_data r = Inr rm"
      by simp_all
    show "\<exists>m. forward_message om' to ab = Inr m"
      by (simp add: forward_message_Inr [OF o])
    show "sent_header (forward_message om' to ab) ''Subject'' =
            Some (if prefix ''Fwd:'' (strip v') then strip v' else ''Fwd: '' @ strip v')"
      if "split_on CHR 0x0A (first_piece (newline @ newline) rm) = pre @ (''Subject:'' @ v') # post \<and>
          (\<forall>l\<in>set post. \<not> prefix ''Subject:'' l)"
      using that found [OF o] by blast
    show "sent_header (forward_message om' to ab) ''Subject'' = Some ''Fwd: ''"
      if "\<forall>l\<in>set (split_on CHR 0x0A (first_piece (newline @ newline) rm)).
            \<not> prefix ''Subject:'' l"
      using that absent [OF o] by blast
  next
    assume a: "raw om' = Some r \<and> decode_data r = Inr (join newline ls @ newline @ newline @ rest) \<and>
      ls \<noteq> [] \<and> (\<forall>l\<in>set ls. l \<noteq> [] \<and> CHR 0x0A \<notin> set l)"
    then have o: "raw om' = Some r"
        "decode_data r = Inr (join newline ls @ newline @ newline @ rest)"
      by simp_all
    from a have block: "split_on CHR 0x0A
        (first_piece (newline @ newline) (join newline ls @ newline @ newline @ rest)) = ls"
      by (intro header_block_lines) simp_all
    show "sent_header (forward_message om' to ab) ''Subject'' =
            Some (if prefix ''Fwd:'' (strip v') then strip v' else ''Fwd: '' @ strip v')"
      if "ls = pre @ (''Subject:'' @ v') # post \<and> (\<forall>l\<in>set post. \<not> prefix ''Subject:'' l)"
      using that found [OF o] block by simp
    show "sent_header (forward_message om' to ab) ''Subject'' = Some ''Fwd: ''"
      if "\<forall>l\<in>set ls. \<not> prefix ''Subject:'' l"
      using that absent [OF o] block by simp
  qed
qed

text \<open>
  A Subject with embedded colons is kept whole by both, and a Subject stored as
  \<^verbatim>\<open>SUBJECT\<close> is found by neither. In a raw message with CR LF line ends no two line
  feeds are adjacent, the block is the whole message, and a line of the body that begins
  with \<^verbatim>\<open>Subject:\<close> comes last.
\<close>

theorem header_extraction_witness:
  "sent_header (reply_to_message (with_headers [(''Subject'', ''Plan: phase 2'')]) ''hi'' None)
       ''Subject'' = Some ''Re: Plan: phase 2''
   \<and> sent_header (reply_to_message (with_headers [(''SUBJECT'', ''Hello'')]) ''hi'' None)
       ''Subject'' = Some ''Re: ''
   \<and> sent_header
        (forward_message
           (raw_message ''U3ViamVjdDogUGxhbjogcGhhc2UgMgpGcm9tOiBhQGIKCmJvZHkgdGV4dA=='') ''x@y'' None)
       ''Subject'' = Some ''Fwd: Plan: phase 2''
   \<and> sent_header (forward_message (raw_message ''U1VCSkVDVDogUGxhbgoKYm9keSB0ZXh0'') ''x@y'' None)
       ''Subject'' = Some ''Fwd: ''
   \<and> sent_header
        (forward_message
           (raw_message ''U3ViamVjdDogUGxhbg0KVG86IHhAeQ0KDQpTdWJqZWN0OiBzcG9vZg=='') ''x@y'' None)
       ''Subject'' = Some ''Fwd: spoof''"
proof -
  let ?P = "\<lambda>hl. MessagePart (Some ''multipart/mixed'') (Some hl) (Some (PartBody None)) None"
  let ?h1 = "[(''Subject'', ''Plan: phase 2'')]"
  let ?h2 = "[(''SUBJECT'', ''Hello'')]"
  let ?f1 = "''U3ViamVjdDogUGxhbjogcGhhc2UgMgpGcm9tOiBhQGIKCmJvZHkgdGV4dA==''"
  let ?f2 = "''U1VCSkVDVDogUGxhbgoKYm9keSB0ZXh0''"
  let ?f3 = "''U3ViamVjdDogUGxhbg0KVG86IHhAeQ0KDQpTdWJqZWN0OiBzcG9vZg==''"
  let ?l1 = "[''Subject: Plan: phase 2'', ''From: a@b'']"
  let ?l2 = "[''SUBJECT: Plan'']"
  let ?m1 = "join newline ?l1 @ newline @ newline @ ''body text''"
  let ?m2 = "join newline ?l2 @ newline @ newline @ ''body text''"
  let ?m3 = "''Subject: Plan'' @ [CHR 0x0D, CHR 0x0A] @ ''To: x@y'' @ [CHR 0x0D, CHR 0x0A]
             @ [CHR 0x0D, CHR 0x0A] @ ''Subject: spoof''"
  let ?pre3 = "[''Subject: Plan'' @ [CHR 0x0D], ''To: x@y'' @ [CHR 0x0D], [CHR 0x0D]]"
  note full = header_extraction [of "with_headers ?h1" "?P ?h1" ?h1 "''hi''" None
      "''Plan: phase 2''" "raw_message ?f1" ?f1 ?m1 "''x@y''" None "[]" "'' Plan: phase 2''"
      "[''From: a@b'']" ?l1 "''body text''"]
  note other = header_extraction [of "with_headers ?h2" "?P ?h2" ?h2 "''hi''" None "[]"
      "raw_message ?f2" ?f2 ?m2 "''x@y''" None "[]" "[]" "[]" ?l2 "''body text''"]
  note crlf = header_extraction [of "with_headers ?h2" "?P ?h2" ?h2 "''hi''" None "[]"
      "raw_message ?f3" ?f3 ?m3 "''x@y''" None ?pre3 "'' spoof''" "[]" ?l2 "''body text''"]
  have o1: "payload (with_headers ?h1) = Some (?P ?h1) \<and> headers (?P ?h1) = Some ?h1"
    and o2: "payload (with_headers ?h2) = Some (?P ?h2) \<and> headers (?P ?h2) = Some ?h2"
    by (simp_all add: with_headers_def)
  have d1: "dict_of ?h1 ''Subject'' = Some ''Plan: phase 2''"
    and d2: "''Subject'' \<notin> fst ` set ?h2"
    by (simp_all add: dict_of_def)
  have r1: "decode_data ?f1 = Inr ?m1" and r2: "decode_data ?f2 = Inr ?m2"
    and r3: "decode_data ?f3 = Inr ?m3"
    by code_simp+
  have k1: "?l1 \<noteq> [] \<and> (\<forall>l\<in>set ?l1. l \<noteq> [] \<and> CHR 0x0A \<notin> set l)"
    and k2: "?l2 \<noteq> [] \<and> (\<forall>l\<in>set ?l2. l \<noteq> [] \<and> CHR 0x0A \<notin> set l)"
    by simp_all
  have e1: "?l1 = [] @ (''Subject:'' @ '' Plan: phase 2'') # [''From: a@b''] \<and>
            (\<forall>l\<in>set [''From: a@b'']. \<not> prefix ''Subject:'' l)"
    and e2: "\<forall>l\<in>set ?l2. \<not> prefix ''Subject:'' l"
    by simp_all
  have b3: "split_on CHR 0x0A (first_piece (newline @ newline) ?m3)
              = ?pre3 @ (''Subject:'' @ '' spoof'') # []"
    by code_simp
  have e3: "split_on CHR 0x0A (first_piece (newline @ newline) ?m3)
              = ?pre3 @ (''Subject:'' @ '' spoof'') # [] \<and>
            (\<forall>l\<in>set []. \<not> prefix ''Subject:'' l)"
    using b3 by simp
  have s1: "strip '' Plan: phase 2'' = ''Plan: phase 2''" and s3: "strip '' spoof'' = ''spoof''"
    by code_simp+
  have c1: "sent_header (reply_to_message (with_headers ?h1) ''hi'' None) ''Subject''
              = Some ''Re: Plan: phase 2''"
    using full [THEN conjunct1, THEN mp, OF o1, THEN conjunct2, THEN conjunct1, THEN mp, OF d1]
    by simp
  have c2: "sent_header (reply_to_message (with_headers ?h2) ''hi'' None) ''Subject''
              = Some ''Re: ''"
    using other [THEN conjunct1, THEN mp, OF o2, THEN conjunct2, THEN conjunct2, THEN mp, OF d2]
    by simp
  have q1: "raw (raw_message ?f1) = Some ?f1 \<and> decode_data ?f1 = Inr ?m1 \<and>
            ?l1 \<noteq> [] \<and> (\<forall>l\<in>set ?l1. l \<noteq> [] \<and> CHR 0x0A \<notin> set l)"
    using r1 k1 raw_message_sel [of ?f1] by blast
  have q2: "raw (raw_message ?f2) = Some ?f2 \<and> decode_data ?f2 = Inr ?m2 \<and>
            ?l2 \<noteq> [] \<and> (\<forall>l\<in>set ?l2. l \<noteq> [] \<and> CHR 0x0A \<notin> set l)"
    using r2 k2 raw_message_sel [of ?f2] by blast
  have q3: "raw (raw_message ?f3) = Some ?f3 \<and> decode_data ?f3 = Inr ?m3"
    using r3 raw_message_sel [of ?f3] by blast
  have c3: "sent_header (forward_message (raw_message ?f1) ''x@y'' None) ''Subject''
              = Some ''Fwd: Plan: phase 2''"
    using full [THEN conjunct2, THEN conjunct2, THEN mp, OF q1, THEN conjunct1, THEN mp, OF e1]
    by (simp add: s1)
  have c4: "sent_header (forward_message (raw_message ?f2) ''x@y'' None) ''Subject''
              = Some ''Fwd: ''"
    using other [THEN conjunct2, THEN conjunct2, THEN mp, OF q2, THEN conjunct2, THEN mp, OF e2]
    by simp
  have c5: "sent_header (forward_message (raw_message ?f3) ''x@y'' None) ''Subject''
              = Some ''Fwd: spoof''"
    using crlf [THEN conjunct2, THEN conjunct1, THEN mp, OF q3, THEN conjunct2, THEN conjunct1,
                 THEN mp, OF e3]
    by (simp add: s3)
  from c1 c2 c3 c4 c5 show ?thesis
    by blast
qed

section \<open>The message codec\<close>

subsection \<open>The attachment loop\<close>



subsection \<open>C2: the container\<close>






subsection \<open>The loop over the sub-parts\<close>

lemma collect_parts_texts:
  assumes "parts_have_keys ps" and "map decode_data (plain_data ps) = map Inr ts"
  shows "collect_parts ps acc = Inr (acc @ ts)"
  using assms
proof (induction ps arbitrary: acc ts)
  case Nil
  then show ?case by (simp add: plain_data_def)
next
  case (Cons p ps)
  from Cons.prems(1) have keys: "parts_have_keys ps"
    and mt: "mimeType p \<noteq> None"
    and bd: "mimeType p = Some ''text/plain'' \<longrightarrow> body p \<noteq> None"
    by (simp_all add: parts_have_keys_def)
  show ?case
  proof (cases "mimeType p = Some ''text/plain'' \<and> (\<exists>b d. body p = Some b \<and> data b = Some d)")
    case True
    then obtain b d where p: "mimeType p = Some ''text/plain''" "body p = Some b" "data b = Some d"
      by blast
    then have pd: "plain_data (p # ps) = d # plain_data ps"
      by (simp add: plain_data_def)
    with Cons.prems(2) obtain t ts' where
      ts: "ts = t # ts'" "decode_data d = Inr t" "map decode_data (plain_data ps) = map Inr ts'"
      by (cases ts) auto
    from Cons.IH [OF keys ts(3)] p ts(1,2) show ?thesis
      by simp
  next
    case False
    with mt bd have pd: "plain_data (p # ps) = plain_data ps"
      by (auto simp: plain_data_def split: option.splits)
    from False mt bd have step: "collect_parts (p # ps) acc = collect_parts ps acc"
      by (auto split: option.splits)
    from Cons.IH [OF keys] Cons.prems(2) pd step show ?thesis
      by simp
  qed
qed

lemma join_single: "join sep [t] = t"
  by simp

subsection \<open>C4: decoding the text of an inbound message\<close>

text \<open>
  The claim fails on the code. A message without sub-parts whose only body is HTML has no
  \<^verbatim>\<open>text/plain\<close> content anywhere, and \<^verbatim>\<open>get_message_body\<close> returns the HTML: the
  top-level body is decoded whatever its declared type. With a body that is not UTF-8
  text it raises.
\<close>

theorem get_message_body_html_counterexample:
  "get_message_body
     \<lparr>payload = Some (MessagePart (Some ''text/html'') (Some [])
                        (Some (PartBody (Some ''PGI-aGk8L2I-''))) None),
      raw = None\<rparr> = Inr ''<b>hi</b>''
   \<and> ''<b>hi</b>'' \<noteq> []
   \<and> get_message_body
     \<lparr>payload = Some (MessagePart (Some ''application/octet-stream'') (Some [])
                        (Some (PartBody (Some ''_w==''))) None),
      raw = None\<rparr> = Inl UnicodeDecodeError"
  by code_simp

text \<open>
  C4 (amended). For every inbound message whose sub-parts have the keys the loop reads
  (\<^verbatim>\<open>mimeType\<close>, and \<^verbatim>\<open>body\<close> on a \<^verbatim>\<open>text/plain\<close> part) and carry data that decodes,
  \<^verbatim>\<open>get_message_body\<close> concatenates the independently base64url-decoded contents \<open>ts\<close> of
  every direct sub-part whose declared type is \<^verbatim>\<open>text/plain\<close> and that carries data, joined
  by a single newline, ignoring the other parts; when the payload has no \<^verbatim>\<open>parts\<close> key it decodes the single
  top-level body if that carries data, whatever its declared type, raising what the decoder
  raises; and it returns the empty string, without raising, when there is no payload, when
  no sub-part is a \<^verbatim>\<open>text/plain\<close> part carrying data, and when there are no sub-parts and
  the top-level body is missing or carries no data.
\<close>

theorem get_message_body_cases:
  "(payload message = Some p \<and> parts p = Some ps \<and> parts_have_keys ps \<and>
      map decode_data (plain_data ps) = map Inr ts \<longrightarrow>
      get_message_body message = Inr (join newline ts))
   \<and> (payload message = Some p \<and> parts p = Some ps \<and> parts_have_keys ps \<and>
      plain_data ps = [] \<longrightarrow>
      get_message_body message = Inr [])
   \<and> (payload message = Some p \<and> parts p = None \<and> body p = Some b \<and> data b = Some d \<longrightarrow>
      get_message_body message = decode_data d)
   \<and> (payload message = Some p \<and> parts p = None \<and>
      (body p = None \<or> body p = Some (PartBody None)) \<longrightarrow>
      get_message_body message = Inr [])
   \<and> (payload message = None \<longrightarrow> get_message_body message = Inr [])"
proof (intro conjI impI)
  assume "payload message = Some p \<and> parts p = Some ps \<and> parts_have_keys ps \<and>
      map decode_data (plain_data ps) = map Inr ts"
  then show "get_message_body message = Inr (join newline ts)"
    using collect_parts_texts [of ps ts "[]"] by (simp add: get_message_body_def)
next
  assume "payload message = Some p \<and> parts p = Some ps \<and> parts_have_keys ps \<and>
      plain_data ps = []"
  then show "get_message_body message = Inr []"
    using collect_parts_texts [of ps "[]" "[]"] by (simp add: get_message_body_def)
next
  assume "payload message = Some p \<and> parts p = None \<and> body p = Some b \<and> data b = Some d"
  then show "get_message_body message = decode_data d"
    by (simp add: get_message_body_def split: sum.splits)
next
  assume "payload message = Some p \<and> parts p = None \<and>
      (body p = None \<or> body p = Some (PartBody None))"
  then show "get_message_body message = Inr []"
    by (auto simp: get_message_body_def)
next
  assume "payload message = None"
  then show "get_message_body message = Inr []"
    by (simp add: get_message_body_def)
qed

text \<open>
  The spec's example: two \<^verbatim>\<open>text/plain\<close> parts \<^verbatim>\<open>foo\<close> and \<^verbatim>\<open>bar\<close> and one part of
  another type give \<^verbatim>\<open>foo\<close>, a newline, \<^verbatim>\<open>bar\<close>; a single top-level body \<^verbatim>\<open>hello\<close> is
  decoded; an HTML part alone gives the empty string.
\<close>

theorem get_message_body_cases_witness:
  "get_message_body
     \<lparr>payload = Some (MessagePart (Some ''multipart/mixed'') (Some []) (Some (PartBody None))
                        (Some foo_bar_parts)),
      raw = None\<rparr> = Inr (''foo'' @ newline @ ''bar'')
   \<and> get_message_body
     \<lparr>payload = Some (MessagePart (Some ''multipart/mixed'') (Some []) (Some (PartBody None))
                        (Some [MessagePart (Some ''text/html'') (Some [])
                                 (Some (PartBody (Some ''PGI-aGk8L2I-''))) None])),
      raw = None\<rparr> = Inr []
   \<and> get_message_body
     \<lparr>payload = Some (MessagePart (Some ''text/plain'') (Some [])
                        (Some (PartBody (Some ''aGVsbG8=''))) None),
      raw = None\<rparr> = Inr ''hello''
   \<and> get_message_body
     \<lparr>payload = Some (MessagePart (Some ''text/plain'') (Some []) (Some (PartBody None)) None),
      raw = None\<rparr> = Inr []
   \<and> get_message_body \<lparr>payload = None, raw = Some ''aGVsbG8=''\<rparr> = Inr []"
proof -
  let ?html = "[MessagePart (Some ''text/html'') (Some []) (Some (PartBody (Some ''PGI-aGk8L2I-''))) None]"
  let ?p1 = "MessagePart (Some ''multipart/mixed'') (Some []) (Some (PartBody None)) (Some foo_bar_parts)"
  let ?p2 = "MessagePart (Some ''multipart/mixed'') (Some []) (Some (PartBody None)) (Some ?html)"
  let ?p3 = "MessagePart (Some ''text/plain'') (Some []) (Some (PartBody (Some ''aGVsbG8=''))) None"
  let ?p4 = "MessagePart (Some ''text/plain'') (Some []) (Some (PartBody None)) None"
  have k: "parts_have_keys foo_bar_parts" "parts_have_keys ?html"
    by (simp_all add: parts_have_keys_def foo_bar_parts_def)
  have pd: "plain_data foo_bar_parts = [''Zm9v'', ''YmFy'']" "plain_data ?html = []"
    by (simp_all add: plain_data_def foo_bar_parts_def)
  have d: "decode_data ''Zm9v'' = Inr ''foo''" "decode_data ''YmFy'' = Inr ''bar''"
          "decode_data ''aGVsbG8='' = Inr ''hello''"
    by code_simp+
  show ?thesis
    using
      get_message_body_cases [of "\<lparr>payload = Some ?p1, raw = None\<rparr>" ?p1 foo_bar_parts
        "[''foo'', ''bar'']" "PartBody None" "[]"]
      get_message_body_cases [of "\<lparr>payload = Some ?p2, raw = None\<rparr>" ?p2 ?html
        "[]" "PartBody None" "[]"]
      get_message_body_cases [of "\<lparr>payload = Some ?p3, raw = None\<rparr>" ?p3 "[]"
        "[]" "PartBody (Some ''aGVsbG8='')" "''aGVsbG8=''"]
      get_message_body_cases [of "\<lparr>payload = Some ?p4, raw = None\<rparr>" ?p4 "[]"
        "[]" "PartBody None" "[]"]
      get_message_body_cases [of "\<lparr>payload = None, raw = Some ''aGVsbG8=''\<rparr>" ?p4 "[]"
        "[]" "PartBody None" "[]"]
      k pd d
    by simp
qed



section \<open>The authorizer\<close>

subsection \<open>C8: a valid stored credential\<close>

text \<open>
  C8. For every stored credential (the token file loads to a credentials object that has
  the four attributes the function checks) that is valid, that is, whose access token is
  not expired, \<^verbatim>\<open>_get_gmail_service\<close> uses that credential unchanged and performs no
  network call: the run has no event at all, so neither the refresh at the token endpoint
  nor the interactive authorisation flow is invoked and the token file is not opened for
  writing; the service is built from the credential as it was loaded.
\<close>

theorem valid_credential_fast_path:
  assumes "disk env (token_file env) = Some bytes"
    and "unpickle env bytes = Some (Creds c)"
    and "set required_fields \<subseteq> set (attrs c)"
    and "valid c"
  shows "fst (get_gmail_service env) = []
       \<and> snd (get_gmail_service env) = build_service env c
       \<and> (build_ok env c \<longrightarrow> snd (get_gmail_service env) = Inr (Service c))
       \<and> contents_during (token_file env) (fst (get_gmail_service env)) (disk env) = []"
proof -
  from assms(3) have "list_all (\<lambda>field. field \<in> set (attrs c)) required_fields"
    by (auto simp: list_all_iff)
  with assms(1,2) have "load_token env = Some c"
    by (simp add: load_token_def)
  with assms(4) have "get_gmail_service env = ([], build_service env c)"
    by (simp add: get_gmail_service_def)
  then show ?thesis
    by (simp add: build_service_def contents_during_def)
qed

theorem valid_credential_fast_path_witness:
  "fst (get_gmail_service stored_env) = []
   \<and> snd (get_gmail_service stored_env) = Inr (Service good_creds)"
proof -
  have a: "disk stored_env (token_file stored_env) = Some ''pickle-of-a''"
    "unpickle stored_env ''pickle-of-a'' = Some (Creds good_creds)"
    "build_ok stored_env good_creds"
    by (simp_all add: stored_env_def)
  have b: "set required_fields \<subseteq> set (attrs good_creds)" "valid good_creds"
    by (simp_all add: required_fields_def good_creds_def)
  show ?thesis
    using valid_credential_fast_path [OF a(1) a(2) b] a(3) by (simp add: build_service_def)
qed

subsection \<open>C9: saving the credential\<close>

text \<open>
  A first authorisation, evaluated: the token file cannot be loaded, the flow runs, and the
  new credential is written over the old file.
\<close>

lemma first_authorisation_run:
  "get_gmail_service stale_env =
     ([RunFlow, OpenTruncate ''token.pickle'', WriteBytes ''token.pickle'' ''pickle-of-b'',
       CloseFile ''token.pickle''],
      Inr (Service new_creds))"
  by (simp add: get_gmail_service_def load_token_def authorize_def client_config_for_flow_def
        save_token_def build_service_def stale_env_def stored_env_def)

text \<open>
  The claim fails on the code: the token file itself is opened with \<^verbatim>\<open>open(..., 'wb')\<close>,
  which truncates it before anything is written, so the previous contents are gone while
  the new ones are not yet there; and when \<^verbatim>\<open>pickle.dump\<close> raises, the file is left with
  what was written until then.
\<close>

theorem save_not_atomic_counterexample:
  "disk stale_env (token_file stale_env) = Some ''old-content''
   \<and> contents_during (token_file stale_env) (fst (save_token stale_env new_creds)) (disk stale_env)
       = [Some [], Some [], Some ''pickle-of-b'']
   \<and> contents_during (token_file failing_dump_env) (fst (save_token failing_dump_env new_creds))
        (disk failing_dump_env)
       = [Some [], Some [], Some ''pic'']
   \<and> snd (save_token failing_dump_env new_creds) = Some PicklingError"
  by (simp add: save_token_def contents_during_def stale_env_def stored_env_def
        failing_dump_env_def)

text \<open>
  C9 (amended). Saving the credential writes the token file in place, inside a scoped
  block that closes the file on every exit path: when the file can be opened, it is
  truncated first, then the pickled bytes are written to it, then it is closed, also when
  \<^verbatim>\<open>pickle.dump\<close> raises; no other file is touched and nothing is renamed. Hence the token
  file is empty from the moment it is opened, and it holds the complete new contents once
  the save has finished without an exception.
\<close>

theorem save_token_in_place:
  assumes "token_writable env"
  shows "(\<exists>bytes. fst (save_token env c) =
            [OpenTruncate (token_file env), WriteBytes (token_file env) bytes,
             CloseFile (token_file env)])
       \<and> hd (contents_during (token_file env) (fst (save_token env c)) (disk env)) = Some []
       \<and> last (fst (save_token env c)) = CloseFile (token_file env)
       \<and> (pickle_dump env c = Dumped new_bytes \<longrightarrow>
            snd (save_token env c) = None \<and>
            last (contents_during (token_file env) (fst (save_token env c)) (disk env))
              = Some new_bytes)
       \<and> (path \<noteq> token_file env \<longrightarrow>
            list_all (\<lambda>content. content = disk env path)
              (contents_during path (fst (save_token env c)) (disk env)))"
  using assms by (cases "pickle_dump env c") (simp_all add: save_token_def contents_during_def)

theorem save_token_in_place_witness:
  "fst (save_token stale_env new_creds) =
     [OpenTruncate ''token.pickle'', WriteBytes ''token.pickle'' ''pickle-of-b'',
      CloseFile ''token.pickle'']
   \<and> last (contents_during ''token.pickle'' (fst (save_token stale_env new_creds)) (disk stale_env))
       = Some ''pickle-of-b''
   \<and> contents_during ''credentials.json'' (fst (save_token stale_env new_creds)) (disk stale_env)
       = [None, None, None]"
proof -
  have a: "token_writable stale_env" "pickle_dump stale_env new_creds = Dumped ''pickle-of-b''"
    "token_file stale_env = ''token.pickle''" "disk stale_env ''credentials.json'' = None"
    by (simp_all add: stale_env_def stored_env_def)
  have b: "''credentials.json'' \<noteq> ''token.pickle''"
    by simp
  show ?thesis
    using save_token_in_place [OF a(1), of new_creds "''pickle-of-b''" "''credentials.json''"] a b
    by (auto simp: save_token_def contents_during_def)
qed


end
